theory Spec2Isabelle
  imports Main
begin

section \<open>The C++11 probe \<open>cxx11_clang.cpp\<close>\<close>

text \<open>
  The whole translation unit is
  \<^verbatim>\<open>
  #include <memory>

  extern "C"
  void cxx11_clang() {
    std::unique_ptr<int> p;
  }
  \<close>
  Its one function declares a local \<open>std::unique_ptr<int>\<close> and leaves the block, so
  the run-time behaviour is: default-construct \<open>p\<close>, then destroy \<open>p\<close>. The embedding
  below makes both steps explicit over a program state, with undefined behaviour of the
  pointer operations (dereferencing a null or dangling pointer, deleting what is not
  allocated) as error values.
\<close>

subsection \<open>Program state and errors\<close>

type_synonym addr = nat

text \<open>
  What a C++ function can observe or change: the free store (the \<open>int\<close> objects created by
  \<open>new\<close>), the objects of static storage duration, the process environment, and what has
  been written to the output streams. The record is extensible: every operation below is
  stated for \<open>'a state_scheme\<close>, so anything else a program state may hold is covered by
  the extension part.
\<close>

record state =
  heap :: "addr \<rightharpoonup> int"
  globals :: "string \<rightharpoonup> int"
  environ :: "string \<rightharpoonup> string"
  written :: "string list"

datatype cxx_error = Null_dereference | Dangling_dereference | Invalid_delete

subsection \<open>\<open>std::unique_ptr<int>\<close>\<close>

text \<open>
  Modelled from the spec: the class template \<open>std::unique_ptr\<close> comes from the standard
  header \<open><memory>\<close>, which the repository includes but does not contain. The spec describes
  it as the exclusive-ownership pointer: a pointer-like value that owns the resource it
  refers to with no sharing, whose destruction releases the resource exactly once, and
  which, when default-constructed, holds no resource (null). The definitions of this
  subsection follow these words, and the C++11 standard where the spec is silent (what
  the deleter and a dereference do).

  The object has one data member, the stored pointer; \<open>None\<close> is the null pointer.
\<close>

record unique_ptr =
  ptr :: "addr option"

text \<open>
  Modelled from the spec: the default constructor \<^verbatim>\<open>constexpr unique_ptr() noexcept\<close>. The
  pointer it makes holds no resource: the stored pointer is null.
\<close>

definition unique_ptr_default :: unique_ptr where
  "unique_ptr_default = \<lparr>ptr = None\<rparr>"

text \<open>
  Modelled from the spec: the observer \<^verbatim>\<open>pointer get() const noexcept\<close>, the stored
  pointer.
\<close>

definition unique_ptr_get :: "unique_ptr \<Rightarrow> addr option" where
  "unique_ptr_get p = ptr p"

text \<open>
  Modelled from the spec: the deleter \<^verbatim>\<open>default_delete<int>::operator()(int* a)\<close>, which
  releases the resource by \<open>delete a\<close>: the object at \<open>a\<close> leaves the free store. Deleting
  an address that holds no object is undefined behaviour.
\<close>

definition default_delete :: "addr \<Rightarrow> 'a state_scheme \<Rightarrow> cxx_error + 'a state_scheme" where
  "default_delete a s =
     (case heap s a of
        None \<Rightarrow> Inl Invalid_delete
      | Some v \<Rightarrow> Inr (s\<lparr>heap := (heap s)(a := None)\<rparr>))"

text \<open>
  Modelled from the spec: the destructor \<^verbatim>\<open>~unique_ptr()\<close>. A pointer that holds no
  resource is destroyed with no side effect, releasing nothing; an owning pointer releases
  its resource through the deleter.
\<close>

definition unique_ptr_dtor :: "unique_ptr \<Rightarrow> 'a state_scheme \<Rightarrow> cxx_error + 'a state_scheme" where
  "unique_ptr_dtor p s =
     (case unique_ptr_get p of
        None \<Rightarrow> Inr s
      | Some a \<Rightarrow> default_delete a s)"

text \<open>
  Modelled from the spec: the dereference \<^verbatim>\<open>operator*\<close>, which reads the owned object.
  It requires a stored pointer that is not null; on a null pointer, and on one whose
  object is gone, the behaviour is undefined.
\<close>

definition unique_ptr_deref :: "unique_ptr \<Rightarrow> 'a state_scheme \<Rightarrow> cxx_error + int" where
  "unique_ptr_deref p s =
     (case unique_ptr_get p of
        None \<Rightarrow> Inl Null_dereference
      | Some a \<Rightarrow> (case heap s a of None \<Rightarrow> Inl Dangling_dereference | Some v \<Rightarrow> Inr v))"

subsection \<open>The function \<open>cxx11_clang\<close>\<close>

text \<open>
  Line 7, \<^verbatim>\<open>std::unique_ptr<int> p;\<close>: the block's only automatic variable, initialised
  by the default constructor.
\<close>

definition cxx11_clang_p :: unique_ptr where
  "cxx11_clang_p = unique_ptr_default"

text \<open>
  Lines 5 to 8, \<^verbatim>\<open>extern "C" void cxx11_clang() { std::unique_ptr<int> p; }\<close>: no
  parameters (the argument is of type \<open>unit\<close>), no return value (the result is of type
  \<open>unit\<close>). The body declares \<open>p\<close>; at the closing brace \<open>p\<close> is destroyed. An error of
  the destructor would be the error of the call.
\<close>

definition cxx11_clang :: "unit \<Rightarrow> 'a state_scheme \<Rightarrow> cxx_error + unit \<times> 'a state_scheme" where
  "cxx11_clang u s =
     (let p = cxx11_clang_p in
      case unique_ptr_dtor p s of
        Inl e \<Rightarrow> Inl e
      | Inr s' \<Rightarrow> Inr ((), s'))"

subsection \<open>Callers and observers used to state the properties\<close>

text \<open>
  \<open>call_times n\<close> is a caller that invokes \<open>cxx11_clang\<close> \<open>n\<close> times in a row, each call
  starting in the state the previous one left, and stops at the first error.
\<close>

primrec call_times :: "nat \<Rightarrow> 'a state_scheme \<Rightarrow> cxx_error + 'a state_scheme" where
  "call_times 0 s = Inr s"
| "call_times (Suc n) s =
     (case cxx11_clang () s of
        Inl e \<Rightarrow> Inl e
      | Inr r \<Rightarrow> call_times n (snd r))"

text \<open>
  \<open>erase_ambient\<close> forgets the ambient inputs of a state: the environment variables and
  the extension part (whatever else the surroundings provide). Two states with the same
  image differ in ambient inputs only.
\<close>

definition erase_ambient :: "'a state_scheme \<Rightarrow> state" where
  "erase_ambient s =
     \<lparr>heap = heap s, globals = globals s, environ = Map.empty, written = written s\<rparr>"

text \<open>The outcome of a call as seen without the ambient inputs.\<close>

definition outcome :: "cxx_error + unit \<times> 'a state_scheme \<Rightarrow> cxx_error + unit \<times> state" where
  "outcome r = (case r of Inl e \<Rightarrow> Inl e | Inr v \<Rightarrow> Inr (fst v, erase_ambient (snd v)))"

text \<open>The result value of a call alone, without the state.\<close>

definition result :: "cxx_error + unit \<times> 'a state_scheme \<Rightarrow> cxx_error + unit" where
  "result r = (case r of Inl e \<Rightarrow> Inl e | Inr v \<Rightarrow> Inr (fst v))"

section \<open>Properties of the pointer operations\<close>

lemma unique_ptr_default_null: "unique_ptr_get unique_ptr_default = None"
  by (simp add: unique_ptr_get_def unique_ptr_default_def)

lemma unique_ptr_dtor_null: "unique_ptr_get p = None \<Longrightarrow> unique_ptr_dtor p s = Inr s"
  by (simp add: unique_ptr_dtor_def)

lemma unique_ptr_deref_null:
  "unique_ptr_get p = None \<Longrightarrow> unique_ptr_deref p s = Inl Null_dereference"
  by (simp add: unique_ptr_deref_def)

text \<open>
  The destructor is not a no-op in general: an owning pointer releases its object, and a
  pointer to nothing allocated is an error.
\<close>

lemma unique_ptr_dtor_owning:
  "heap s a = Some v \<Longrightarrow>
   unique_ptr_dtor \<lparr>ptr = Some a\<rparr> s = Inr (s\<lparr>heap := (heap s)(a := None)\<rparr>)"
  by (simp add: unique_ptr_dtor_def unique_ptr_get_def default_delete_def)

lemma unique_ptr_dtor_dangling:
  "heap s a = None \<Longrightarrow> unique_ptr_dtor \<lparr>ptr = Some a\<rparr> s = Inl Invalid_delete"
  by (simp add: unique_ptr_dtor_def unique_ptr_get_def default_delete_def)

lemma unique_ptr_deref_owning:
  "heap s a = Some v \<Longrightarrow> unique_ptr_deref \<lparr>ptr = Some a\<rparr> s = Inr v"
  by (simp add: unique_ptr_deref_def unique_ptr_get_def)

section \<open>Properties of \<open>cxx11_clang\<close>\<close>

lemma cxx11_clang_p_get: "unique_ptr_get cxx11_clang_p = None"
  by (simp add: cxx11_clang_p_def unique_ptr_default_null)

lemma cxx11_clang_unfold: "cxx11_clang u s = Inr ((), s)"
  by (simp add: cxx11_clang_def Let_def unique_ptr_dtor_null [OF cxx11_clang_p_get])

text \<open>
  Claim C10 (frame condition): calling \<open>cxx11_clang\<close> leaves every part of the program
  state unchanged. For every starting state the call returns normally, and the state after
  the call has the same free store, the same static objects, the same environment, the
  same output and the same extension part as the state before: it is the same state.
\<close>

theorem cxx11_clang_frame:
  "\<exists>s'. cxx11_clang u s = Inr ((), s') \<and>
        heap s' = heap s \<and> globals s' = globals s \<and> environ s' = environ s \<and>
        written s' = written s \<and> state.more s' = state.more s \<and> s' = s"
proof -
  have "cxx11_clang u s = Inr ((), s)"
    by (rule cxx11_clang_unfold)
  then show ?thesis
    by simp
qed

text \<open>
  Claim C1 (idempotent no-op): every invocation of \<open>cxx11_clang\<close> returns at once with no
  visible effect, and invoking it any number of times cannot be told from invoking it once
  or not at all. A single call returns the state it was given; \<open>n\<close> calls in a row end in
  the starting state, which is where one call (\<open>call_times (Suc 0)\<close>) and no call
  (\<open>call_times 0\<close>) end as well.
\<close>

theorem cxx11_clang_idempotent_noop:
  "cxx11_clang u s = Inr ((), s) \<and>
   call_times n s = Inr s \<and>
   call_times n s = call_times (Suc 0) s \<and>
   call_times n s = call_times 0 s"
proof -
  have once: "cxx11_clang v t = Inr ((), t)" for v and t :: "'a state_scheme"
    by (rule cxx11_clang_unfold)
  have many: "call_times k s = Inr s" for k
  proof (induction k)
    case 0
    show ?case by simp
  next
    case (Suc k)
    then show ?case by (simp add: once)
  qed
  have one: "call_times (Suc 0) s = Inr s"
    by (rule many)
  show ?thesis
    by (simp only: once many one call_times.simps(1) simp_thms)
qed

text \<open>
  Claim C2 (the pointer \<open>p\<close>): the local \<open>p\<close> is default-constructed, its stored pointer is
  null, it is never dereferenced, and its destruction at the end of the block releases
  nothing and has no side effect. In the embedding: \<open>p\<close> is the value of the default
  constructor; \<open>get\<close> on it is the null pointer; destroying it in any state returns that
  state unchanged; the call is exactly this destruction. A dereference of \<open>p\<close> would be
  the error \<open>Null_dereference\<close> in every state, and errors are never caught, so a call
  that dereferenced \<open>p\<close> would end in that error: the call does not.
\<close>

theorem cxx11_clang_p_null_throughout:
  "cxx11_clang_p = unique_ptr_default \<and>
   unique_ptr_get cxx11_clang_p = None \<and>
   unique_ptr_dtor cxx11_clang_p s = Inr s \<and>
   cxx11_clang u s =
     (case unique_ptr_dtor cxx11_clang_p s of Inl e \<Rightarrow> Inl e | Inr s' \<Rightarrow> Inr ((), s')) \<and>
   unique_ptr_deref cxx11_clang_p s = Inl Null_dereference \<and>
   cxx11_clang u s \<noteq> Inl Null_dereference"
proof -
  have null: "unique_ptr_get cxx11_clang_p = None"
    by (rule cxx11_clang_p_get)
  have dtor: "unique_ptr_dtor cxx11_clang_p s = Inr s"
    by (rule unique_ptr_dtor_null [OF null])
  have deref: "unique_ptr_deref cxx11_clang_p s = Inl Null_dereference"
    by (rule unique_ptr_deref_null [OF null])
  have body: "cxx11_clang u s =
      (case unique_ptr_dtor cxx11_clang_p s of Inl e \<Rightarrow> Inl e | Inr s' \<Rightarrow> Inr ((), s'))"
    by (simp add: cxx11_clang_def Let_def)
  have ok: "cxx11_clang u s \<noteq> Inl Null_dereference"
    unfolding body dtor by simp
  from null dtor deref body ok show ?thesis
    by (simp add: cxx11_clang_p_def)
qed

text \<open>
  Claim C3 (signature): \<open>cxx11_clang\<close> takes no parameters and returns no value. Its
  embedding has argument type \<open>unit\<close> and result type \<open>unit\<close>: for the argument \<open>u\<close> of
  type \<open>unit\<close> the call returns normally with a value of type \<open>unit\<close>, and that value is
  any \<open>r\<close> of type \<open>unit\<close>, there being one.
\<close>

theorem cxx11_clang_signature:
  "result (cxx11_clang (u :: unit) s) = Inr (r :: unit) \<and>
   (cxx11_clang :: unit \<Rightarrow> 'a state_scheme \<Rightarrow> cxx_error + unit \<times> 'a state_scheme) () s
     = Inr ((), s)"
  by (simp add: result_def cxx11_clang_unfold)

text \<open>
  Claim C5 (determinism): any two executions of \<open>cxx11_clang\<close> have the same observable
  outcome, result and effects. Two calls from the same state return the same result and
  the same final state. More is true: the result does not depend on the state at all, so
  two calls from any two states return the same value, and each leaves its own state as
  it found it.
\<close>

theorem cxx11_clang_deterministic:
  "cxx11_clang u s = cxx11_clang u' s \<and>
   result (cxx11_clang u s1) = result (cxx11_clang u' s2) \<and>
   (\<exists>r. cxx11_clang u s1 = Inr (r, s1) \<and> cxx11_clang u' s2 = Inr (r, s2))"
proof -
  have same: "cxx11_clang u s = cxx11_clang u' s"
    by (simp add: cxx11_clang_unfold)
  have r1: "cxx11_clang u s1 = Inr ((), s1)"
    by (rule cxx11_clang_unfold)
  have r2: "cxx11_clang u' s2 = Inr ((), s2)"
    by (rule cxx11_clang_unfold)
  have res: "result (cxx11_clang u s1) = result (cxx11_clang u' s2)"
    unfolding r1 r2 by (simp add: result_def)
  from same res r1 r2 show ?thesis
    by blast
qed

text \<open>
  Claim C6 (no dependence on the environment): two executions of \<open>cxx11_clang\<close> that
  differ only in environment variables or other ambient inputs have the same outcome. If
  two starting states agree once their ambient inputs are erased, so do the outcomes of
  the two calls: the same result value and, ambient inputs apart, the same final state.
\<close>

theorem cxx11_clang_environment_independent:
  "erase_ambient s1 = erase_ambient s2 \<Longrightarrow>
   outcome (cxx11_clang u s1) = outcome (cxx11_clang u s2)"
  by (simp add: outcome_def cxx11_clang_unfold)

theorem cxx11_clang_environment_independent_witness:
  "erase_ambient \<lparr>heap = [0 \<mapsto> 5], globals = Map.empty,
                  environ = [''CXX'' \<mapsto> ''clang++''], written = []\<rparr>
     = erase_ambient \<lparr>heap = [0 \<mapsto> 5], globals = Map.empty,
                      environ = Map.empty, written = []\<rparr> \<and>
   environ \<lparr>heap = [0 \<mapsto> 5], globals = Map.empty,
            environ = [''CXX'' \<mapsto> ''clang++''], written = []\<rparr>
     \<noteq> environ \<lparr>heap = [0 \<mapsto> 5], globals = Map.empty,
                environ = Map.empty, written = []\<rparr> \<and>
   outcome (cxx11_clang () \<lparr>heap = [0 \<mapsto> 5], globals = Map.empty,
                            environ = [''CXX'' \<mapsto> ''clang++''], written = []\<rparr>)
     = outcome (cxx11_clang () \<lparr>heap = [0 \<mapsto> 5], globals = Map.empty,
                                environ = Map.empty, written = []\<rparr>)"
proof -
  let ?s1 = "\<lparr>heap = [0 \<mapsto> 5], globals = Map.empty,
              environ = [''CXX'' \<mapsto> ''clang++''], written = []\<rparr>"
  let ?s2 = "\<lparr>heap = [0 \<mapsto> 5], globals = Map.empty,
              environ = Map.empty, written = []\<rparr> :: state"
  have agree: "erase_ambient ?s1 = erase_ambient ?s2"
    by (simp add: erase_ambient_def)
  have differ: "environ ?s1 \<noteq> environ ?s2"
    by simp
  from agree differ cxx11_clang_environment_independent [OF agree, of "()"]
  show ?thesis
    by blast
qed

text \<open>
  Claim C7 (termination): every invocation of \<open>cxx11_clang\<close> terminates. The embedding is
  a plain definition, with no recursion and no loop, and in every state the call returns
  normally with some final state.
\<close>

theorem cxx11_clang_terminates:
  "\<exists>s'. cxx11_clang u s = Inr ((), s')"
  by (rule exI [of _ s]) (rule cxx11_clang_unfold)

text \<open>
  Claim C9 (no run-time error): \<open>cxx11_clang\<close> never raises an error. Destroying the
  default-constructed pointer takes the branch without effects, which cannot fail, so the
  call returns no error value \<open>e\<close>, whatever the state.
\<close>

theorem cxx11_clang_no_error:
  "unique_ptr_dtor unique_ptr_default s \<noteq> Inl e \<and>
   cxx11_clang u s \<noteq> Inl e \<and>
   \<not> isl (cxx11_clang u s)"
  by (simp add: cxx11_clang_unfold unique_ptr_dtor_null [OF unique_ptr_default_null])

end
